theory Spec2Isabelle
  imports
    Complex_Main
    "HOL-Library.Char_ord"
    "HOL-Library.List_Lexorder"
    "HOL-Library.AList"
    "HOL-Library.Multiset"
begin

section \<open>Data model (types.ts)\<close>

text \<open>
  The string-literal unions \<^verbatim>\<open>MovieStatus\<close> and \<^verbatim>\<open>MediaType\<close> become datatypes. A
  JavaScript \<^verbatim>\<open>number\<close> that holds an identifier, a timestamp or a count is an \<open>int\<close>;
  one that holds an average rating is a \<open>real\<close>. An optional property (\<^verbatim>\<open>f?: T\<close>) is an
  \<open>option\<close>: \<open>None\<close> stands both for a missing property and for one whose value is
  \<^verbatim>\<open>undefined\<close>, which no code of the repository tells apart (it only reads properties
  and spreads objects). \<^verbatim>\<open>null\<close> is kept apart from \<^verbatim>\<open>undefined\<close>.
\<close>

datatype MovieStatus = Watchlist | Watched | Dropped

datatype MediaType = MovieT | TvT | BookT

datatype 'a nullable = Null | Val 'a

record WatchProvider =
  providerId :: int
  providerName :: string
  logoPath :: string

record WatchProvidersData =
  link :: string
  flatrate :: "WatchProvider list"
  rent :: "WatchProvider list"
  buy :: "WatchProvider list"

record Episode =
  e_id :: int
  e_name :: string
  e_episode_number :: int
  e_air_date :: "string option"
  e_overview :: string
  e_still_path :: "string nullable option"
  e_isWatched :: bool
  e_vote_average :: "real option"

record Season =
  s_id :: int
  s_name :: string
  s_season_number :: int
  s_poster_path :: "string nullable option"
  s_episode_count :: int
  s_air_date :: "string option"
  s_episodes :: "Episode list option"

text \<open>
  \<^verbatim>\<open>interface Movie\<close>. The type of \<open>mediaType\<close> is a parameter: a library record has a
  \<open>MediaType\<close> there, an object of the legacy payload may lack the property.
\<close>

record 'mt MovieRec =
  movie_id :: string
  tmdbId :: "int option"
  openLibraryId :: "string option"
  title :: string
  year :: string
  genre :: "string list"
  description :: string
  director :: string
  status :: MovieStatus
  rating :: int
  userReview :: "string option"
  posterPath :: "string nullable option"
  posterSeed :: int
  addedAt :: int
  mediaType :: 'mt
  tmdbRating :: "real option"
  pageCount :: "int option"
  plannedDate :: "string option"
  watchProviders :: "WatchProvidersData option"
  seasons :: "Season list option"

type_synonym Movie = "MediaType MovieRec"

type_synonym LegacyMovie = "MediaType option MovieRec"

text \<open>\<^verbatim>\<open>SearchResult.id\<close> is \<^verbatim>\<open>string | number\<close>; \<^verbatim>\<open>typeof\<close> tells the two apart.\<close>

datatype result_id = NumId int | StrId string

record SearchResult =
  r_id :: result_id
  r_title :: string
  r_year :: string
  r_genre :: "string list"
  r_description :: string
  r_director :: string
  r_posterPath :: "string nullable"
  r_mediaType :: MediaType
  r_voteAverage :: real
  r_pageCount :: "int option"

datatype ViewState = LIBRARY | WATCHLIST | SEARCH | STATS | DETAILS | PLANNER

text \<open>
  \<^verbatim>\<open>Partial<Movie>\<close>: every property may be missing. \<open>None\<close> is a missing property, which a
  spread leaves alone; for an optional property of \<^verbatim>\<open>Movie\<close>, \<open>Some None\<close> is the property
  present with the value \<^verbatim>\<open>undefined\<close>, which a spread writes.
\<close>

record MoviePartial =
  p_id :: "string option"
  p_tmdbId :: "int option option"
  p_openLibraryId :: "string option option"
  p_title :: "string option"
  p_year :: "string option"
  p_genre :: "string list option"
  p_description :: "string option"
  p_director :: "string option"
  p_status :: "MovieStatus option"
  p_rating :: "int option"
  p_userReview :: "string option option"
  p_posterPath :: "string nullable option option"
  p_posterSeed :: "int option"
  p_addedAt :: "int option"
  p_mediaType :: "MediaType option"
  p_tmdbRating :: "real option option"
  p_pageCount :: "int option option"
  p_plannedDate :: "string option option"
  p_watchProviders :: "WatchProvidersData option option"
  p_seasons :: "Season list option option"

definition no_updates :: MoviePartial where
  "no_updates =
     \<lparr>p_id = None, p_tmdbId = None, p_openLibraryId = None, p_title = None, p_year = None,
      p_genre = None, p_description = None, p_director = None, p_status = None,
      p_rating = None, p_userReview = None, p_posterPath = None, p_posterSeed = None,
      p_addedAt = None, p_mediaType = None, p_tmdbRating = None, p_pageCount = None,
      p_plannedDate = None, p_watchProviders = None, p_seasons = None\<rparr>"

definition overwrite :: "'a \<Rightarrow> 'a option \<Rightarrow> 'a" where
  "overwrite old new = (case new of None \<Rightarrow> old | Some v \<Rightarrow> v)"

text \<open>The object spread \<^verbatim>\<open>{ ...m, ...updates }\<close>.\<close>

definition spread :: "Movie \<Rightarrow> MoviePartial \<Rightarrow> Movie" where
  "spread m u =
     \<lparr>movie_id = overwrite (movie_id m) (p_id u),
      tmdbId = overwrite (tmdbId m) (p_tmdbId u),
      openLibraryId = overwrite (openLibraryId m) (p_openLibraryId u),
      title = overwrite (title m) (p_title u),
      year = overwrite (year m) (p_year u),
      genre = overwrite (genre m) (p_genre u),
      description = overwrite (description m) (p_description u),
      director = overwrite (director m) (p_director u),
      status = overwrite (status m) (p_status u),
      rating = overwrite (rating m) (p_rating u),
      userReview = overwrite (userReview m) (p_userReview u),
      posterPath = overwrite (posterPath m) (p_posterPath u),
      posterSeed = overwrite (posterSeed m) (p_posterSeed u),
      addedAt = overwrite (addedAt m) (p_addedAt u),
      mediaType = overwrite (mediaType m) (p_mediaType u),
      tmdbRating = overwrite (tmdbRating m) (p_tmdbRating u),
      pageCount = overwrite (pageCount m) (p_pageCount u),
      plannedDate = overwrite (plannedDate m) (p_plannedDate u),
      watchProviders = overwrite (watchProviders m) (p_watchProviders u),
      seasons = overwrite (seasons m) (p_seasons u)\<rparr>"

section \<open>Application and platform state\<close>

text \<open>
  Exceptions and promise rejections are values. \<open>DOMException\<close> is what \<^verbatim>\<open>openDB\<close>
  rejects with when the storage is not available, \<open>SyntaxError\<close> what \<^verbatim>\<open>JSON.parse\<close>
  throws.
\<close>

datatype exn = DOMException string | SyntaxError string | Error string

text \<open>
  What reaches the console or the user: \<^verbatim>\<open>console.error(msg, e)\<close>, the migration's
  \<^verbatim>\<open>console.log\<close> with the number of migrated items, and \<^verbatim>\<open>alert(msg)\<close>.
\<close>

datatype log_entry =
  ConsoleError string exn
| MigratedLog nat
| Alert string

text \<open>
  One state for the React component and the platform under it, taken when the component
  has rendered again after an operation: \<open>movies\<close> and
  \<open>isLoading\<close> are the component's state; \<open>store\<close> is the object store \<^verbatim>\<open>movies\<close> of the
  IndexedDB database (key path \<^verbatim>\<open>id\<close>), an association list from key to record;
  \<open>openDB_error\<close> is the outcome of \<^verbatim>\<open>openDB\<close>, which \<^verbatim>\<open>dbPromise\<close> caches (\<open>None\<close>: it
  resolves, \<open>Some e\<close>: it rejects with \<open>e\<close>); \<open>localStorage\<close> maps keys to strings;
  \<open>console\<close> collects what is logged or alerted.

  The code is asynchronous, but every call is awaited before the next one starts and the
  specification assumes a single writer, so each operation is a function from state to
  state. An updater passed to \<^verbatim>\<open>setMovies\<close> has always run by the next render, so the
  collection after an operation is the updater's; whether it has run by the time the
  handler goes on is an input of \<^verbatim>\<open>handleAddMovie\<close> and \<^verbatim>\<open>updateMovieDetails\<close>, which read
  a variable that their updater assigns.
\<close>

record state =
  movies :: "Movie list"
  isLoading :: bool
  store :: "(string \<times> Movie) list"
  openDB_error :: "exn option"
  localStorage :: "string \<rightharpoonup> string"
  console :: "log_entry list"

section \<open>Record store (services/db.ts, its first part)\<close>

definition initDB :: "state \<Rightarrow> exn + unit" where
  "initDB st = (case openDB_error st of Some e \<Rightarrow> Inl e | None \<Rightarrow> Inr ())"

text \<open>\<^verbatim>\<open>store.put\<close> with key path \<^verbatim>\<open>id\<close>: the record replaces the one stored under its id.\<close>

definition put :: "Movie \<Rightarrow> (string \<times> Movie) list \<Rightarrow> (string \<times> Movie) list" where
  "put m al = AList.update (movie_id m) m al"

text \<open>\<^verbatim>\<open>getAll\<close> returns the records in the order of their keys.\<close>

definition getAllMovies :: "state \<Rightarrow> (exn + Movie list) \<times> state" where
  "getAllMovies st =
     (case initDB st of
        Inl e \<Rightarrow> (Inl e, st)
      | Inr _ \<Rightarrow> (Inr (map snd (sort_key fst (store st))), st))"

definition db_saveMovie :: "Movie \<Rightarrow> state \<Rightarrow> (exn + unit) \<times> state" where
  "db_saveMovie m st =
     (case initDB st of
        Inl e \<Rightarrow> (Inl e, st)
      | Inr _ \<Rightarrow> (Inr (), st\<lparr>store := put m (store st)\<rparr>))"

definition db_deleteMovie :: "string \<Rightarrow> state \<Rightarrow> (exn + unit) \<times> state" where
  "db_deleteMovie k st =
     (case initDB st of
        Inl e \<Rightarrow> (Inl e, st)
      | Inr _ \<Rightarrow> (Inr (), st\<lparr>store := AList.delete k (store st)\<rparr>))"

text \<open>\<^verbatim>\<open>bulkSaveMovies\<close>: clear the store, then put every record, in order.\<close>

definition bulkSaveMovies :: "Movie list \<Rightarrow> state \<Rightarrow> (exn + unit) \<times> state" where
  "bulkSaveMovies ms st =
     (case initDB st of
        Inl e \<Rightarrow> (Inl e, st)
      | Inr _ \<Rightarrow> (Inr (), st\<lparr>store := fold put ms []\<rparr>))"

section \<open>Library service (services/db.ts, its second part, imported as movieService)\<close>

definition getLibrary :: "state \<Rightarrow> (exn + Movie list) \<times> state" where
  "getLibrary st = getAllMovies st"

definition saveMovie :: "Movie \<Rightarrow> state \<Rightarrow> (exn + unit) \<times> state" where
  "saveMovie m st = db_saveMovie m st"

definition deleteMovie_service :: "string \<Rightarrow> state \<Rightarrow> (exn + unit) \<times> state" where
  "deleteMovie_service k st = db_deleteMovie k st"

definition overwriteLibrary :: "Movie list \<Rightarrow> state \<Rightarrow> (exn + unit) \<times> state" where
  "overwriteLibrary ms st = bulkSaveMovies ms st"

section \<open>Adding from a search result (unnamed/part_000, App.handleAddMovie)\<close>

text \<open>
  \<^verbatim>\<open>crypto.randomUUID()\<close>, \<^verbatim>\<open>Math.random()\<close> and \<^verbatim>\<open>Date.now()\<close> are inputs of the call.
  So is \<open>updaterRan\<close>: whether React has run the updater passed to \<^verbatim>\<open>setMovies\<close> by the
  time the handler reads \<^verbatim>\<open>movieToSave\<close>. React runs an updater at the call only when the
  component has no update pending; otherwise it runs it at the next render, after the
  handler has read the variable.
\<close>

record add_env =
  randomUUID :: string
  random :: real
  now :: int
  updaterRan :: bool

definition newMovie_of :: "SearchResult \<Rightarrow> MovieStatus \<Rightarrow> add_env \<Rightarrow> Movie" where
  "newMovie_of result targetStatus env =
     \<lparr>movie_id = randomUUID env,
      tmdbId = (case r_id result of NumId n \<Rightarrow> Some n | StrId _ \<Rightarrow> None),
      openLibraryId = (case r_id result of StrId s \<Rightarrow> Some s | NumId _ \<Rightarrow> None),
      title = r_title result,
      year = r_year result,
      genre = r_genre result,
      description = r_description result,
      director = r_director result,
      status = targetStatus,
      rating = 0,
      userReview = None,
      posterPath = Some (r_posterPath result),
      posterSeed = \<lfloor>random env * 1000\<rfloor>,
      addedAt = now env,
      mediaType = r_mediaType result,
      tmdbRating = Some (r_voteAverage result),
      pageCount = r_pageCount result,
      plannedDate = None,
      watchProviders = None,
      seasons = None\<rparr>"

text \<open>
  The duplicate test
  \<^verbatim>\<open>(m.tmdbId && m.tmdbId === newMovie.tmdbId) || (m.openLibraryId && m.openLibraryId === newMovie.openLibraryId)\<close>.
  \<^verbatim>\<open>&&\<close> tests truthiness: \<^verbatim>\<open>undefined\<close>, the number 0 and the empty string are falsy.
\<close>

definition is_duplicate :: "Movie \<Rightarrow> Movie \<Rightarrow> bool" where
  "is_duplicate newMovie m =
     ((case tmdbId m of None \<Rightarrow> False | Some n \<Rightarrow> n \<noteq> 0 \<and> Some n = tmdbId newMovie) \<or>
      (case openLibraryId m of None \<Rightarrow> False
       | Some s \<Rightarrow> s \<noteq> [] \<and> Some s = openLibraryId newMovie))"

text \<open>\<^verbatim>\<open>Array.prototype.findIndex\<close>: the first index whose element passes, or -1.\<close>

fun findIndex :: "('a \<Rightarrow> bool) \<Rightarrow> 'a list \<Rightarrow> int" where
  "findIndex P [] = - 1"
| "findIndex P (x # xs) =
     (if P x then 0 else (let i = findIndex P xs in if i < 0 then - 1 else i + 1))"

text \<open>
  The updater of \<^verbatim>\<open>handleAddMovie\<close>: the next collection, and the record it assigns to
  \<^verbatim>\<open>movieToSave\<close>.
\<close>

definition addMovie_updater ::
  "Movie \<Rightarrow> MovieStatus \<Rightarrow> Movie list \<Rightarrow> Movie list \<times> Movie" where
  "addMovie_updater newMovie targetStatus prev =
     (let existingIndex = findIndex (is_duplicate newMovie) prev
      in if existingIndex \<ge> 0
         then
           (let updated = prev[nat existingIndex :=
                               (prev ! nat existingIndex)\<lparr>status := targetStatus\<rparr>]
            in (updated, updated ! nat existingIndex))
         else (newMovie # prev, newMovie))"

text \<open>
  \<^verbatim>\<open>handleAddMovie\<close>. The collection is the updater's in either case, since the render
  that follows the call runs an updater that has not run yet. \<^verbatim>\<open>movieToSave\<close> is assigned
  only by the updater: when the updater has not run by then, the variable is still
  \<^verbatim>\<open>undefined\<close> at \<^verbatim>\<open>if (movieToSave)\<close> and nothing is written.
\<close>

definition handleAddMovie ::
  "SearchResult \<Rightarrow> MovieStatus \<Rightarrow> add_env \<Rightarrow> state \<Rightarrow> (exn + unit) \<times> state" where
  "handleAddMovie result targetStatus env st =
     (let newMovie = newMovie_of result targetStatus env;
          (updated, assigned) = addMovie_updater newMovie targetStatus (movies st);
          movieToSave = (if updaterRan env then Some assigned else None);
          st' = st\<lparr>movies := updated\<rparr>
      in case movieToSave of
           None \<Rightarrow> (Inr (), st')
         | Some m \<Rightarrow> saveMovie m st')"

section \<open>Editing a record (unnamed/part_000, App.updateMovieDetails, App.handleQuickStatusUpdate)\<close>

text \<open>
  The updater maps over the collection and assigns \<^verbatim>\<open>updatedMovie\<close> at every record with
  the given id, so the variable ends as the update of the last such record. As in
  \<^verbatim>\<open>handleAddMovie\<close>, \<open>hasRun\<close> tells whether the updater has run by the time the handler
  reads the variable; when it has not, \<^verbatim>\<open>updatedMovie\<close> is \<^verbatim>\<open>undefined\<close> there and nothing is
  written.
\<close>

definition updateMovieDetails ::
  "string \<Rightarrow> MoviePartial \<Rightarrow> bool \<Rightarrow> state \<Rightarrow> (exn + unit) \<times> state" where
  "updateMovieDetails k updates hasRun st =
     (let prev = movies st;
          st' = st\<lparr>movies := map (\<lambda>m. if movie_id m = k then spread m updates else m) prev\<rparr>;
          updatedMovie =
            (if hasRun then
               (case filter (\<lambda>m. movie_id m = k) prev of
                  [] \<Rightarrow> None
                | m # ms \<Rightarrow> Some (spread (last (m # ms)) updates))
             else None)
      in case updatedMovie of
           None \<Rightarrow> (Inr (), st')
         | Some m \<Rightarrow> saveMovie m st')"

definition handleQuickStatusUpdate :: "Movie \<Rightarrow> bool \<Rightarrow> state \<Rightarrow> (exn + unit) \<times> state" where
  "handleQuickStatusUpdate movie hasRun st =
     (let newStatus = (if status movie = Watchlist then Watched else Watchlist);
          updates = no_updates\<lparr>p_status := Some newStatus\<rparr>;
          updates = (if newStatus = Watched then updates\<lparr>p_plannedDate := Some None\<rparr>
                     else updates)
      in updateMovieDetails (movie_id movie) updates hasRun st)"


section \<open>Manual entry (components/ManualEntryModal.tsx)\<close>

record formData =
  f_title :: string
  f_year :: string
  f_director :: string
  f_description :: string
  f_genre :: string
  f_mediaType :: MediaType

text \<open>\<^verbatim>\<open>String.prototype.split\<close> at a separator character: \<^verbatim>\<open>"".split(",")\<close> is \<^verbatim>\<open>[""]\<close>.\<close>

fun split_at :: "char \<Rightarrow> string \<Rightarrow> string list" where
  "split_at c [] = [[]]"
| "split_at c (x # xs) =
     (if x = c then [] # split_at c xs
      else (case split_at c xs of [] \<Rightarrow> [[x]] | w # ws \<Rightarrow> (x # w) # ws))"

text \<open>
  \<^verbatim>\<open>String.prototype.trim\<close>. A \<open>char\<close> is one byte, so the white space is the part of
  JavaScript's that lies below 256: tab, line feed, vertical tab, form feed, carriage
  return, space and the no-break space.
\<close>

definition is_space :: "char \<Rightarrow> bool" where
  "is_space c =
     (c \<in> set [CHR 0x09, CHR 0x0A, CHR 0x0B, CHR 0x0C, CHR 0x0D, CHR 0x20, CHR 0xA0])"

definition trim :: "string \<Rightarrow> string" where
  "trim s = rev (dropWhile is_space (rev (dropWhile is_space s)))"

text \<open>
  \<^verbatim>\<open>handleSubmit\<close> builds the search result handed to \<^verbatim>\<open>onAdd\<close>; its \<^verbatim>\<open>id\<close> is
  \<^verbatim>\<open>Date.now()\<close>, passed here as \<open>t\<close>. \<^verbatim>\<open>a || b\<close> on strings takes \<open>b\<close> when \<open>a\<close> is empty.
\<close>

definition handleSubmit :: "formData \<Rightarrow> int \<Rightarrow> SearchResult" where
  "handleSubmit fd t =
     \<lparr>r_id = NumId t,
      r_title = f_title fd,
      r_year = f_year fd,
      r_genre = filter (\<lambda>g. g \<noteq> []) (map trim (split_at CHR '','' (f_genre fd))),
      r_description =
        (if f_description fd \<noteq> [] then f_description fd else ''No description provided.''),
      r_director =
        (if f_director fd \<noteq> [] then f_director fd
         else if f_mediaType fd = BookT then ''Unknown Author'' else ''Unknown''),
      r_posterPath = Null,
      r_mediaType = f_mediaType fd,
      r_voteAverage = 0,
      r_pageCount = None\<rparr>"

text \<open>
  The modal's \<^verbatim>\<open>onAdd\<close> in \<^verbatim>\<open>App\<close>: \<^verbatim>\<open>handleAddMovie(result, 'watched')\<close>. \<open>t\<close> is the time
  of the submit, \<open>env\<close> holds the values drawn inside \<^verbatim>\<open>handleAddMovie\<close>.
\<close>

definition manualAdd ::
  "formData \<Rightarrow> int \<Rightarrow> add_env \<Rightarrow> state \<Rightarrow> (exn + unit) \<times> state" where
  "manualAdd fd t env st = handleAddMovie (handleSubmit fd t) Watched env st"

section \<open>Next-up pick (unnamed/part_000, App.upNext)\<close>

text \<open>
  \<^verbatim>\<open>a.plannedDate && b.plannedDate\<close> tests truthiness: a planned date counts when it is a
  non-empty string.
\<close>

definition date_of :: "Movie \<Rightarrow> string option" where
  "date_of m = (case plannedDate m of None \<Rightarrow> None | Some d \<Rightarrow> if d = [] then None else Some d)"

text \<open>
  \<^verbatim>\<open>localeCompare\<close> on planned dates. The dates have the format YYYY-MM-DD, digits and
  hyphens, on which the collation order is the order of the characters' codes; the
  model compares the strings lexicographically by character code.
\<close>

definition localeCompare :: "string \<Rightarrow> string \<Rightarrow> int" where
  "localeCompare a b = (if a < b then - 1 else if a = b then 0 else 1)"

definition compare_upNext :: "Movie \<Rightarrow> Movie \<Rightarrow> int" where
  "compare_upNext a b =
     (case (date_of a, date_of b) of
        (Some x, Some y) \<Rightarrow> localeCompare x y
      | (Some x, None) \<Rightarrow> - 1
      | (None, Some y) \<Rightarrow> 1
      | (None, None) \<Rightarrow> addedAt a - addedAt b)"

text \<open>
  \<^verbatim>\<open>Array.prototype.sort\<close> with a comparison function is a stable sort: an element moves
  in front of another only where the comparison is positive. Insertion from the right
  gives exactly that order.
\<close>

fun insert_by :: "('a \<Rightarrow> 'a \<Rightarrow> int) \<Rightarrow> 'a \<Rightarrow> 'a list \<Rightarrow> 'a list" where
  "insert_by cmp x [] = [x]"
| "insert_by cmp x (y # ys) = (if cmp x y \<le> 0 then x # y # ys else y # insert_by cmp x ys)"

definition sort_by :: "('a \<Rightarrow> 'a \<Rightarrow> int) \<Rightarrow> 'a list \<Rightarrow> 'a list" where
  "sort_by cmp xs = foldr (insert_by cmp) xs []"

text \<open>\<^verbatim>\<open>getTop\<close>; element 0 of an empty array is \<^verbatim>\<open>undefined\<close>, here \<open>None\<close>.\<close>

definition getTop :: "Movie list \<Rightarrow> MediaType list \<Rightarrow> Movie option" where
  "getTop ms types =
     (let watchlist = filter (\<lambda>m. status m = Watchlist) ms;
          items = filter (\<lambda>m. mediaType m \<in> set types) watchlist
      in case sort_by compare_upNext items of [] \<Rightarrow> None | x # _ \<Rightarrow> Some x)"

record UpNext =
  visual :: "Movie option"
  book :: "Movie option"

definition upNext :: "ViewState \<Rightarrow> Movie list \<Rightarrow> UpNext option" where
  "upNext view ms =
     (if view \<noteq> LIBRARY \<and> view \<noteq> WATCHLIST then None
      else Some \<lparr>visual = getTop ms [MovieT, TvT], book = getTop ms [BookT]\<rparr>)"

section \<open>Legacy migration and initialisation\<close>

text \<open>
  \<^verbatim>\<open>JSON.parse\<close> and \<^verbatim>\<open>JSON.stringify\<close> belong to the platform and are parameters of the
  functions that call them. A parsed value is seen by the code only through
  \<^verbatim>\<open>Array.isArray\<close>, its length and its elements.
\<close>

datatype 'a json = JArray "'a list" | JOther

definition LOCAL_STORAGE_KEY :: string where
  "LOCAL_STORAGE_KEY = ''shelfie_library_v1''"

text \<open>\<^verbatim>\<open>{ ...movie, mediaType: movie.mediaType || 'movie' }\<close>\<close>

definition normalized :: "LegacyMovie \<Rightarrow> Movie" where
  "normalized movie =
     \<lparr>movie_id = movie_id movie,
      tmdbId = tmdbId movie,
      openLibraryId = openLibraryId movie,
      title = title movie,
      year = year movie,
      genre = genre movie,
      description = description movie,
      director = director movie,
      status = status movie,
      rating = rating movie,
      userReview = userReview movie,
      posterPath = posterPath movie,
      posterSeed = posterSeed movie,
      addedAt = addedAt movie,
      mediaType = (case mediaType movie of None \<Rightarrow> MovieT | Some t \<Rightarrow> t),
      tmdbRating = tmdbRating movie,
      pageCount = pageCount movie,
      plannedDate = plannedDate movie,
      watchProviders = watchProviders movie,
      seasons = seasons movie\<rparr>"

text \<open>
  \<^verbatim>\<open>migrateFromLocalStorage\<close>. The \<^verbatim>\<open>try\<close> block covers the parse, the opening of the
  database and the writes; the \<^verbatim>\<open>catch\<close> logs and returns, so the function never
  rejects.
\<close>

definition migrateFromLocalStorage ::
  "(string \<Rightarrow> exn + LegacyMovie json) \<Rightarrow> state \<Rightarrow> (exn + unit) \<times> state" where
  "migrateFromLocalStorage JSON_parse st =
     (case localStorage st LOCAL_STORAGE_KEY of
        None \<Rightarrow> (Inr (), st)
      | Some legacyData \<Rightarrow>
          if legacyData = [] then (Inr (), st)
          else
            (case JSON_parse legacyData of
               Inl e \<Rightarrow> (Inr (), st\<lparr>console := console st @ [ConsoleError ''Migration failed'' e]\<rparr>)
             | Inr JOther \<Rightarrow> (Inr (), st)
             | Inr (JArray ms) \<Rightarrow>
                 if length ms > 0 then
                   (case initDB st of
                      Inl e \<Rightarrow>
                        (Inr (), st\<lparr>console := console st @ [ConsoleError ''Migration failed'' e]\<rparr>)
                    | Inr _ \<Rightarrow>
                        (Inr (),
                         st\<lparr>store := fold (\<lambda>movie. put (normalized movie)) ms (store st),
                            localStorage := (localStorage st)(LOCAL_STORAGE_KEY := None),
                            console := console st @ [MigratedLog (length ms)]\<rparr>))
                 else (Inr (), st)))"

text \<open>
  \<^verbatim>\<open>initStorage\<close>. \<^verbatim>\<open>db.persistStorage\<close> is called here but its definition is not among
  the sources; it is the parameter \<open>persistStorage\<close>.
\<close>

definition initStorage ::
  "(string \<Rightarrow> exn + LegacyMovie json) \<Rightarrow> (state \<Rightarrow> (exn + unit) \<times> state) \<Rightarrow> state
     \<Rightarrow> (exn + unit) \<times> state" where
  "initStorage JSON_parse persistStorage st =
     (case initDB st of
        Inl e \<Rightarrow> (Inl e, st)
      | Inr _ \<Rightarrow>
          (case persistStorage st of
             (Inl e, st1) \<Rightarrow> (Inl e, st1)
           | (Inr _, st1) \<Rightarrow> migrateFromLocalStorage JSON_parse st1))"

text \<open>The effect \<^verbatim>\<open>init\<close> of \<^verbatim>\<open>App\<close>: \<^verbatim>\<open>try { ... } catch { console.error } finally { ... }\<close>.\<close>

definition init ::
  "(string \<Rightarrow> exn + LegacyMovie json) \<Rightarrow> (state \<Rightarrow> (exn + unit) \<times> state) \<Rightarrow> state \<Rightarrow> state" where
  "init JSON_parse persistStorage st =
     (case initStorage JSON_parse persistStorage st of
        (Inl e, st1) \<Rightarrow>
          st1\<lparr>console := console st1 @ [ConsoleError ''Failed to load library'' e],
              isLoading := False\<rparr>
      | (Inr _, st1) \<Rightarrow>
          (case getLibrary st1 of
             (Inl e, st2) \<Rightarrow>
               st2\<lparr>console := console st2 @ [ConsoleError ''Failed to load library'' e],
                   isLoading := False\<rparr>
           | (Inr loaded, st2) \<Rightarrow> st2\<lparr>movies := loaded, isLoading := False\<rparr>))"

section \<open>Export and import (movieService.exportData, importData, App.handleFileChange)\<close>

text \<open>
  \<^verbatim>\<open>exportData\<close> offers \<^verbatim>\<open>JSON.stringify(movies, null, 2)\<close> as a download; the value here is
  the content of the downloaded file.
\<close>

definition exportData :: "(Movie list \<Rightarrow> string) \<Rightarrow> Movie list \<Rightarrow> string" where
  "exportData JSON_stringify ms = JSON_stringify ms"

text \<open>
  \<^verbatim>\<open>importData\<close>. The file is the outcome of \<^verbatim>\<open>reader.readAsText\<close>: its text, or the error
  \<^verbatim>\<open>reader.onerror\<close> receives.
\<close>

definition importData ::
  "(string \<Rightarrow> exn + Movie json) \<Rightarrow> exn + string \<Rightarrow> exn + Movie list" where
  "importData JSON_parse file =
     (case file of
        Inl err \<Rightarrow> Inl err
      | Inr text \<Rightarrow>
          (case JSON_parse text of
             Inl err \<Rightarrow> Inl err
           | Inr (JArray xs) \<Rightarrow> Inr xs
           | Inr JOther \<Rightarrow> Inl (Error ''Invalid file format: Not an array'')))"

text \<open>\<^verbatim>\<open>handleFileChange\<close>; \<open>confirmed\<close> is the user's answer to \<^verbatim>\<open>confirm\<close>.\<close>

definition handleFileChange ::
  "(string \<Rightarrow> exn + Movie json) \<Rightarrow> (exn + string) option \<Rightarrow> bool \<Rightarrow> state \<Rightarrow> state" where
  "handleFileChange JSON_parse file confirmed st =
     (case file of
        None \<Rightarrow> st
      | Some f \<Rightarrow>
          (case importData JSON_parse f of
             Inl err \<Rightarrow> st\<lparr>console := console st @ [Alert ''Failed to import file.'']\<rparr>
           | Inr importedMovies \<Rightarrow>
               if confirmed then
                 (case overwriteLibrary importedMovies (st\<lparr>movies := importedMovies\<rparr>) of
                    (Inl err, st1) \<Rightarrow>
                      st1\<lparr>console := console st1 @ [Alert ''Failed to import file.'']\<rparr>
                  | (Inr _, st1) \<Rightarrow> st1)
               else st))"

section \<open>Vocabulary of the specification\<close>

text \<open>
  A record refers to the catalogue entry \<open>rid\<close> when it carries that identifier in the
  property of the identifier's kind.
\<close>

definition has_ref :: "result_id \<Rightarrow> Movie \<Rightarrow> bool" where
  "has_ref rid m =
     (case rid of NumId n \<Rightarrow> tmdbId m = Some n | StrId s \<Rightarrow> openLibraryId m = Some s)"

text \<open>An identifier that JavaScript takes as true: a number other than 0, a non-empty string.\<close>

definition truthy_id :: "result_id \<Rightarrow> bool" where
  "truthy_id rid = (case rid of NumId n \<Rightarrow> n \<noteq> 0 | StrId s \<Rightarrow> s \<noteq> [])"

text \<open>
  A sequence of \<^verbatim>\<open>handleAddMovie\<close> calls, each with its search result, target status and
  drawn values. The calls are separate user actions: the next one runs on the state the
  previous one left, whether or not its write was rejected.
\<close>

fun addAll :: "(SearchResult \<times> MovieStatus \<times> add_env) list \<Rightarrow> state \<Rightarrow> state" where
  "addAll [] st = st"
| "addAll ((result, targetStatus, env) # calls) st =
     addAll calls (snd (handleAddMovie result targetStatus env st))"

text \<open>A record holds at most one of the two kinds of reference.\<close>

definition single_ref :: "Movie \<Rightarrow> bool" where
  "single_ref m = (tmdbId m = None \<or> openLibraryId m = None)"

text \<open>
  The order of the next-up pick, in the specification's words: two planned dates compare
  by date, a planned record comes before an unplanned one, two unplanned records compare
  by \<open>addedAt\<close>. A record is planned when \<open>date_of\<close> finds a date, and dates in the format
  YYYY-MM-DD compare as strings.
\<close>

definition no_later :: "Movie \<Rightarrow> Movie \<Rightarrow> bool" where
  "no_later p q =
     (case (date_of p, date_of q) of
        (Some x, Some y) \<Rightarrow> x \<le> y
      | (Some x, None) \<Rightarrow> True
      | (None, Some y) \<Rightarrow> False
      | (None, None) \<Rightarrow> addedAt p \<le> addedAt q)"

text \<open>
  \<open>pick\<close> is a next-up pick of the group \<open>types\<close>: absent when the group has no record on
  the watchlist, else one of these records that is no later than each of them.
\<close>

definition is_next_up :: "Movie list \<Rightarrow> MediaType list \<Rightarrow> Movie option \<Rightarrow> bool" where
  "is_next_up ms types pick =
     (let candidates = filter (\<lambda>m. status m = Watchlist \<and> mediaType m \<in> set types) ms
      in case pick of
           None \<Rightarrow> candidates = []
         | Some p \<Rightarrow> p \<in> set candidates \<and> (\<forall>q\<in>set candidates. no_later p q))"

section \<open>Sample data\<close>

definition film :: "string \<Rightarrow> int \<Rightarrow> MovieStatus \<Rightarrow> string option \<Rightarrow> int \<Rightarrow> Movie" where
  "film k n s d t =
     \<lparr>movie_id = k, tmdbId = Some n, openLibraryId = None, title = ''Alien'', year = ''1979'',
      genre = [''Horror''], description = ''In space'', director = '''', status = s, rating = 0,
      userReview = None, posterPath = Some Null, posterSeed = 7, addedAt = t,
      mediaType = MovieT, tmdbRating = Some 0, pageCount = None, plannedDate = d,
      watchProviders = None, seasons = None\<rparr>"

text \<open>A state whose store holds the records of the collection, with the database open.\<close>

definition app_state :: "Movie list \<Rightarrow> state" where
  "app_state ms =
     \<lparr>movies = ms, isLoading = False, store = map (\<lambda>m. (movie_id m, m)) ms,
      openDB_error = None, localStorage = Map.empty, console = []\<rparr>"

definition found :: "result_id \<Rightarrow> SearchResult" where
  "found rid =
     \<lparr>r_id = rid, r_title = ''Alien'', r_year = ''1979'', r_genre = [''Horror''],
      r_description = ''In space'', r_director = '''', r_posterPath = Null,
      r_mediaType = MovieT, r_voteAverage = 0, r_pageCount = None\<rparr>"

text \<open>Drawn values of a call whose updater runs at the call, and of one whose updater waits.\<close>

definition drawn :: "string \<Rightarrow> int \<Rightarrow> add_env" where
  "drawn k t = \<lparr>randomUUID = k, random = 0, now = t, updaterRan = True\<rparr>"

definition drawn_late :: "string \<Rightarrow> int \<Rightarrow> add_env" where
  "drawn_late k t = \<lparr>randomUUID = k, random = 0, now = t, updaterRan = False\<rparr>"

definition form :: formData where
  "form = \<lparr>f_title = ''Home video'', f_year = ''2024'', f_director = '''', f_description = '''',
            f_genre = ''Family, Holiday ,'', f_mediaType = MovieT\<rparr>"

text \<open>The four records of the specification's next-up example.\<close>

definition planned_A :: Movie where
  "planned_A = film ''A'' 1 Watchlist (Some ''2024-01-05'') 10"

definition planned_B :: Movie where
  "planned_B = film ''B'' 2 Watchlist (Some ''2024-01-01'') 20"

definition unplanned_C :: Movie where
  "unplanned_C = film ''C'' 3 Watchlist None 100"

definition unplanned_D :: Movie where
  "unplanned_D = film ''D'' 4 Watchlist None 50"

text \<open>
  A record with the id \<open>k\<close> and the media type \<open>mt\<close>: an item of a legacy payload when \<open>mt\<close>
  is optional, a library record when it is a media type.
\<close>

definition item :: "string \<Rightarrow> 'mt \<Rightarrow> 'mt MovieRec" where
  "item k mt =
     \<lparr>movie_id = k, tmdbId = Some 42, openLibraryId = None, title = ''Alien'', year = ''1979'',
      genre = [''Horror''], description = ''In space'', director = '''', status = Watched,
      rating = 8, userReview = None, posterPath = Some Null, posterSeed = 7, addedAt = 100,
      mediaType = mt, tmdbRating = None, pageCount = None, plannedDate = None,
      watchProviders = None, seasons = None\<rparr>"

text \<open>
  Three payloads, abridged to the properties that tell them apart: an array of two items,
  an object, and a text cut short.
\<close>

definition legacy_payload :: string where
  \<open>legacy_payload = ''[{"id":"a"},{"id":"b","mediaType":"tv"}]''\<close>

definition object_payload :: string where
  \<open>object_payload = ''{"id":"a"}''\<close>

definition broken_payload :: string where
  \<open>broken_payload = ''[{"id":"a"},{"id''\<close>

text \<open>A parser known on these payloads; it rejects every other text.\<close>

definition sample_parse :: "string \<Rightarrow> exn + LegacyMovie json" where
  "sample_parse text =
     (if text = legacy_payload
      then Inr (JArray [item ''a'' None, item ''b'' (Some TvT)])
      else if text = object_payload then Inr JOther
      else Inl (SyntaxError ''Unexpected end of JSON input''))"

definition legacy_state :: "string \<Rightarrow> state" where
  "legacy_state payload =
     \<lparr>movies = [], isLoading = True, store = [], openDB_error = None,
      localStorage = [LOCAL_STORAGE_KEY \<mapsto> payload], console = []\<rparr>"

definition persist_ok :: "state \<Rightarrow> (exn + unit) \<times> state" where
  "persist_ok s = (Inr (), s)"

definition closed_state :: state where
  "closed_state =
     \<lparr>movies = [], isLoading = True, store = [],
      openDB_error = Some (DOMException ''storage unavailable''),
      localStorage = Map.empty, console = []\<rparr>"

text \<open>
  A collection of two records, the text of its export (abridged), and a serialiser and a
  parser known on them.
\<close>

definition two_films :: "Movie list" where
  "two_films = [film ''b'' 43 Watched None 50, film ''a'' 42 Watchlist None 100]"

definition export_text :: string where
  \<open>export_text = ''[{"id":"b"},{"id":"a"}]''\<close>

definition sample_stringify :: "Movie list \<Rightarrow> string" where
  "sample_stringify ms = (if ms = two_films then export_text else ''[]'')"

definition sample_parse_export :: "string \<Rightarrow> exn + Movie json" where
  "sample_parse_export text =
     (if text = export_text then Inr (JArray two_films)
      else Inl (SyntaxError ''Unexpected end of JSON input''))"

section \<open>Basic facts about the operations\<close>

lemma spread_status:
  "spread m (no_updates\<lparr>p_status := Some s\<rparr>) = m\<lparr>status := s\<rparr>"
  by (simp add: spread_def no_updates_def overwrite_def)

lemma spread_status_clear:
  "spread m (no_updates\<lparr>p_status := Some s, p_plannedDate := Some None\<rparr>)
     = m\<lparr>status := s, plannedDate := None\<rparr>"
  by (simp add: spread_def no_updates_def overwrite_def)

lemma movies_saveMovie: "movies (snd (saveMovie m st)) = movies st"
  by (simp add: saveMovie_def db_saveMovie_def split: sum.splits)

lemma store_saveMovie:
  "store (snd (saveMovie m st)) = (if openDB_error st = None then put m (store st) else store st)"
  by (auto simp add: saveMovie_def db_saveMovie_def initDB_def split: sum.splits option.splits)

lemma movies_updateMovieDetails:
  "movies (snd (updateMovieDetails k u hasRun st)) =
     map (\<lambda>m. if movie_id m = k then spread m u else m) (movies st)"
  by (simp add: updateMovieDetails_def Let_def movies_saveMovie split: list.splits)

lemma findIndex_neg_iff: "findIndex P xs < 0 \<longleftrightarrow> (\<forall>x\<in>set xs. \<not> P x)"
  by (induction xs) (auto simp: Let_def)

lemma findIndex_found:
  "findIndex P xs \<ge> 0 \<Longrightarrow> nat (findIndex P xs) < length xs \<and> P (xs ! nat (findIndex P xs))"
  by (induction xs) (auto simp: Let_def nat_add_distrib split: if_splits)

lemma fst_saveMovie:
  "fst (saveMovie m st) = (case openDB_error st of None \<Rightarrow> Inr () | Some e \<Rightarrow> Inl e)"
  by (simp add: saveMovie_def db_saveMovie_def initDB_def split: option.splits)

lemma movies_handleAddMovie:
  "movies (snd (handleAddMovie result t env st)) =
     (let new = newMovie_of result t env; i = findIndex (is_duplicate new) (movies st)
      in if i \<ge> 0 then (movies st)[nat i := (movies st ! nat i)\<lparr>status := t\<rparr>]
         else new # movies st)"
  by (simp add: handleAddMovie_def addMovie_updater_def Let_def movies_saveMovie)

lemma store_handleAddMovie:
  "store (snd (handleAddMovie result t env st)) =
     (let new = newMovie_of result t env; i = findIndex (is_duplicate new) (movies st)
      in if openDB_error st \<noteq> None \<or> \<not> updaterRan env then store st
         else if i \<ge> 0
           then put ((movies st)[nat i := (movies st ! nat i)\<lparr>status := t\<rparr>] ! nat i) (store st)
         else put new (store st))"
  by (simp add: handleAddMovie_def addMovie_updater_def Let_def store_saveMovie)

lemma fst_handleAddMovie:
  "fst (handleAddMovie result t env st) =
     (case openDB_error st of
        None \<Rightarrow> Inr ()
      | Some e \<Rightarrow> if updaterRan env then Inl e else Inr ())"
  by (simp add: handleAddMovie_def addMovie_updater_def Let_def fst_saveMovie
      split: option.splits)

section \<open>Quick status toggle\<close>

text \<open>
  C10. The quick status toggle takes a record on the watchlist to watched and a record of
  any other status to the watchlist; when the new status is watched it clears
  \<open>plannedDate\<close>; it changes no other field, and no record with another id. The
  collection after the toggle is the collection before it with exactly this update applied
  to the records that carry the id of the toggled record.
\<close>

theorem quick_toggle:
  "movies (snd (handleQuickStatusUpdate movie hasRun st)) =
     map (\<lambda>m. if movie_id m = movie_id movie
              then m\<lparr>status := (if status movie = Watchlist then Watched else Watchlist),
                     plannedDate := (if status movie = Watchlist then None else plannedDate m)\<rparr>
              else m) (movies st)"
  by (simp add: handleQuickStatusUpdate_def Let_def movies_updateMovieDetails
        spread_status spread_status_clear)

theorem quick_toggle_witness:
  "movies (snd (handleQuickStatusUpdate (film ''a'' 42 Watchlist (Some ''2024-01-05'') 100) True
      (app_state [film ''a'' 42 Watchlist (Some ''2024-01-05'') 100, film ''b'' 43 Watched None 50])))
   = [film ''a'' 42 Watched None 100, film ''b'' 43 Watched None 50]"
  using quick_toggle[of "film ''a'' 42 Watchlist (Some ''2024-01-05'') 100" True
      "app_state [film ''a'' 42 Watchlist (Some ''2024-01-05'') 100, film ''b'' 43 Watched None 50]"]
  by (simp add: film_def app_state_def)

section \<open>Adding from a search result\<close>

lemma is_duplicate_has_ref:
  "truthy_id (r_id result) \<Longrightarrow>
   is_duplicate (newMovie_of result t env) m = has_ref (r_id result) m"
  by (auto simp: is_duplicate_def has_ref_def truthy_id_def newMovie_of_def
      split: result_id.splits option.splits)

lemma has_ref_newMovie: "has_ref (r_id result) (newMovie_of result t env)"
  by (simp add: has_ref_def newMovie_of_def split: result_id.splits)

lemma status_newMovie: "status (newMovie_of result t env) = t"
  by (simp add: newMovie_of_def)

lemma has_ref_status: "has_ref rid (m\<lparr>status := t\<rparr>) = has_ref rid m"
  by (simp add: has_ref_def split: result_id.splits)

text \<open>
  When exactly one element passes the test, updating the first element that passes is
  updating every element that passes.
\<close>

lemma update_first_unique:
  "filter P xs = [m] \<Longrightarrow>
   xs[nat (findIndex P xs) := g (xs ! nat (findIndex P xs))] = map (\<lambda>x. if P x then g x else x) xs"
proof (induction xs)
  case Nil
  then show ?case by simp
next
  case (Cons x xs)
  show ?case
  proof (cases "P x")
    case True
    with Cons.prems have "filter P xs = []" by simp
    then have "\<forall>y\<in>set xs. \<not> P y" by (simp add: filter_empty_conv)
    then have "map (\<lambda>x. if P x then g x else x) xs = xs" by (simp add: map_idI)
    with True show ?thesis by simp
  next
    case False
    with Cons.prems have f: "filter P xs = [m]" by simp
    then have "m \<in> set (filter P xs)" by simp
    then have "\<exists>y\<in>set xs. P y" by auto
    then have nn: "findIndex P xs \<ge> 0" using findIndex_neg_iff[of P xs] by auto
    from Cons.IH[OF f] False nn show ?thesis by (simp add: Let_def nat_add_distrib)
  qed
qed

lemma filter_map_preserve:
  "(\<And>x. P (h x) = P x) \<Longrightarrow> filter P (map h xs) = map h (filter P xs)"
  by (induction xs) auto

text \<open>
  One call with a truthy identifier, on a collection with at most one record of that
  reference, leaves exactly one such record, with the target status.
\<close>

lemma add_step:
  assumes tr: "truthy_id (r_id result)"
    and le: "length (filter (has_ref (r_id result)) (movies st)) \<le> 1"
  shows "\<exists>m. filter (has_ref (r_id result)) (movies (snd (handleAddMovie result t env st))) = [m]
             \<and> status m = t"
proof -
  let ?P = "has_ref (r_id result)"
  let ?new = "newMovie_of result t env"
  have dup: "is_duplicate ?new = ?P"
    using is_duplicate_has_ref[OF tr] by (intro ext) simp
  show ?thesis
  proof (cases "filter ?P (movies st)")
    case Nil
    then have "\<forall>x\<in>set (movies st). \<not> ?P x" by (simp add: filter_empty_conv)
    then have "findIndex ?P (movies st) < 0" by (simp add: findIndex_neg_iff)
    then have "movies (snd (handleAddMovie result t env st)) = ?new # movies st"
      by (simp add: movies_handleAddMovie Let_def dup)
    with Nil show ?thesis by (simp add: has_ref_newMovie status_newMovie)
  next
    case (Cons m ms)
    with le have f: "filter ?P (movies st) = [m]" by simp
    then have "m \<in> set (filter ?P (movies st))" by simp
    then have pm: "?P m" and ex: "\<exists>y\<in>set (movies st). ?P y" by auto
    from ex have nn: "findIndex ?P (movies st) \<ge> 0"
      using findIndex_neg_iff[of ?P "movies st"] by auto
    have "movies (snd (handleAddMovie result t env st)) =
            map (\<lambda>x. if ?P x then x\<lparr>status := t\<rparr> else x) (movies st)"
      using nn update_first_unique[OF f, of "\<lambda>x. x\<lparr>status := t\<rparr>"]
      by (simp add: movies_handleAddMovie Let_def dup)
    moreover have "filter ?P (map (\<lambda>x. if ?P x then x\<lparr>status := t\<rparr> else x) (movies st))
        = map (\<lambda>x. if ?P x then x\<lparr>status := t\<rparr> else x) (filter ?P (movies st))"
      by (rule filter_map_preserve) (simp add: has_ref_status)
    ultimately show ?thesis using f pm by simp
  qed
qed

text \<open>
  C1, as amended. For every non-empty sequence of \<^verbatim>\<open>handleAddMovie\<close> calls whose search
  results share one identifier that is a number other than 0 or a non-empty string, run on
  a collection that holds at most one record with that reference, the resulting collection
  holds exactly one record with that reference, and its status is the target status of the
  last call.
\<close>

theorem add_unique:
  assumes "calls \<noteq> []"
    and "\<forall>c\<in>set calls. r_id (fst c) = rid"
    and "truthy_id rid"
    and "length (filter (has_ref rid) (movies st)) \<le> 1"
  shows "\<exists>m. filter (has_ref rid) (movies (addAll calls st)) = [m]
             \<and> status m = fst (snd (last calls))"
  using assms
proof (induction calls arbitrary: st)
  case Nil
  then show ?case by simp
next
  case (Cons c calls)
  obtain result t env where c: "c = (result, t, env)" by (cases c) auto
  from Cons.prems c have rid: "r_id result = rid" by simp
  from add_step[of result st t env] Cons.prems rid
  obtain m where m: "filter (has_ref rid) (movies (snd (handleAddMovie result t env st))) = [m]"
    "status m = t" by auto
  show ?case
  proof (cases calls)
    case Nil
    with m c show ?thesis by simp
  next
    case (Cons c' cs)
    have "\<exists>m. filter (has_ref rid)
                 (movies (addAll calls (snd (handleAddMovie result t env st)))) = [m]
             \<and> status m = fst (snd (last calls))"
      by (rule Cons.IH) (use Cons Cons.prems m in auto)
    with Cons c show ?thesis by simp
  qed
qed

theorem add_unique_witness:
  "(\<exists>m. filter (has_ref (NumId 42))
      (movies (addAll [(found (NumId 42), Watchlist, drawn ''k1'' 10),
                       (found (NumId 42), Watched, drawn ''k2'' 20)]
                 (app_state [film ''b'' 43 Watched None 50]))) = [m] \<and> status m = Watched) \<and>
   filter (has_ref (NumId 42))
      (movies (addAll [(found (NumId 42), Watchlist, drawn ''k1'' 10),
                       (found (NumId 42), Watched, drawn ''k2'' 20)]
                 (app_state [film ''b'' 43 Watched None 50])))
     = [newMovie_of (found (NumId 42)) Watched (drawn ''k1'' 10)]"
proof -
  let ?calls = "[(found (NumId 42), Watchlist, drawn ''k1'' 10),
                 (found (NumId 42), Watched, drawn ''k2'' 20)]"
  let ?st = "app_state [film ''b'' 43 Watched None 50]"
  have 1: "?calls \<noteq> []" by simp
  have 2: "\<forall>c\<in>set ?calls. r_id (fst c) = NumId 42" by (simp add: found_def)
  have 3: "truthy_id (NumId 42)" by (simp add: truthy_id_def)
  have 4: "length (filter (has_ref (NumId 42)) (movies ?st)) \<le> 1"
    by (simp add: app_state_def)
  have 5: "filter (has_ref (NumId 42)) (movies (addAll ?calls ?st))
     = [newMovie_of (found (NumId 42)) Watched (drawn ''k1'' 10)]"
    by (simp add: movies_handleAddMovie Let_def is_duplicate_def newMovie_of_def found_def
        film_def app_state_def has_ref_def drawn_def)
  from add_unique[OF 1 2 3 4] 5 show ?thesis by simp
qed

text \<open>
  The claim as stated fails for the identifier 0: the duplicate test takes 0 as false, so
  two calls for the catalogue entry 0 leave two records with that reference.
\<close>

theorem add_unique_counterexample:
  "length (filter (has_ref (NumId 0))
      (movies (addAll [(found (NumId 0), Watchlist, drawn ''k1'' 10),
                       (found (NumId 0), Watched, drawn ''k2'' 20)] (app_state [])))) = 2"
  by (simp add: movies_handleAddMovie Let_def is_duplicate_def newMovie_of_def found_def
        app_state_def has_ref_def drawn_def)

text \<open>
  C3, as amended. When the collection holds a record that the duplicate test of
  \<^verbatim>\<open>handleAddMovie\<close> accepts for the candidate, the call creates no record: the collection
  keeps its length and changes only at the first such record, which gets the target status
  and keeps every field other than \<open>status\<close> and \<open>plannedDate\<close> (of \<open>plannedDate\<close> nothing is
  said). The call returns no record: its result is the unit value, or the error of the
  database when a write was tried and the database does not open. When the updater has
  run by the time \<^verbatim>\<open>movieToSave\<close> is read and the database opens, the record put to the
  store is the updated record of the collection.
\<close>

theorem dedup_changes_status:
  assumes "existing \<in> set (movies st)"
    and "is_duplicate (newMovie_of result targetStatus env) existing"
  shows "let i = nat (findIndex (is_duplicate (newMovie_of result targetStatus env)) (movies st));
             old = movies st ! i;
             st' = snd (handleAddMovie result targetStatus env st)
         in i < length (movies st) \<and> is_duplicate (newMovie_of result targetStatus env) old \<and>
            (\<exists>d. movies st' = (movies st)[i := old\<lparr>status := targetStatus, plannedDate := d\<rparr>]) \<and>
            length (movies st') = length (movies st) \<and>
            (updaterRan env \<and> openDB_error st = None \<longrightarrow>
               store st' = put (movies st' ! i) (store st)) \<and>
            fst (handleAddMovie result targetStatus env st)
              = (case openDB_error st of
                   None \<Rightarrow> Inr ()
                 | Some e \<Rightarrow> if updaterRan env then Inl e else Inr ())"
proof -
  let ?P = "is_duplicate (newMovie_of result targetStatus env)"
  let ?i = "nat (findIndex ?P (movies st))"
  let ?old = "movies st ! ?i"
  from assms have "\<not> findIndex ?P (movies st) < 0"
    by (auto simp: findIndex_neg_iff)
  then have nn: "findIndex ?P (movies st) \<ge> 0" by simp
  from findIndex_found[OF nn] have i: "?i < length (movies st)" and p: "?P ?old" by simp_all
  have m: "movies (snd (handleAddMovie result targetStatus env st))
             = (movies st)[?i := ?old\<lparr>status := targetStatus\<rparr>]"
    using nn by (simp add: movies_handleAddMovie Let_def)
  have "?old\<lparr>status := targetStatus\<rparr> = ?old\<lparr>status := targetStatus, plannedDate := plannedDate ?old\<rparr>"
    by simp
  with m have ex: "\<exists>d. movies (snd (handleAddMovie result targetStatus env st))
             = (movies st)[?i := ?old\<lparr>status := targetStatus, plannedDate := d\<rparr>]"
    by metis
  have s: "updaterRan env \<and> openDB_error st = None \<longrightarrow>
             store (snd (handleAddMovie result targetStatus env st))
               = put (movies (snd (handleAddMovie result targetStatus env st)) ! ?i) (store st)"
    using nn i by (simp add: m store_handleAddMovie Let_def)
  have r: "fst (handleAddMovie result targetStatus env st)
              = (case openDB_error st of
                   None \<Rightarrow> Inr ()
                 | Some e \<Rightarrow> if updaterRan env then Inl e else Inr ())"
    by (simp add: fst_handleAddMovie)
  from i p ex m s r show ?thesis by (simp add: Let_def)
qed

theorem dedup_changes_status_witness:
  "movies (snd (handleAddMovie (found (NumId 42)) Watched (drawn ''n'' 900)
      (app_state [film ''b'' 43 Watched None 50, film ''a'' 42 Watchlist None 100])))
    = [film ''b'' 43 Watched None 50, film ''a'' 42 Watched None 100] \<and>
   store (snd (handleAddMovie (found (NumId 42)) Watched (drawn ''n'' 900)
      (app_state [film ''b'' 43 Watched None 50, film ''a'' 42 Watchlist None 100])))
    = [(''b'', film ''b'' 43 Watched None 50), (''a'', film ''a'' 42 Watched None 100)] \<and>
   fst (handleAddMovie (found (NumId 42)) Watched (drawn ''n'' 900)
      (app_state [film ''b'' 43 Watched None 50, film ''a'' 42 Watchlist None 100])) = Inr ()"
proof -
  let ?st = "app_state [film ''b'' 43 Watched None 50, film ''a'' 42 Watchlist None 100]"
  let ?env = "drawn ''n'' 900"
  have 1: "film ''a'' 42 Watchlist None 100 \<in> set (movies ?st)" by (simp add: app_state_def)
  have 2: "is_duplicate (newMovie_of (found (NumId 42)) Watched ?env)
             (film ''a'' 42 Watchlist None 100)"
    by (simp add: is_duplicate_def newMovie_of_def found_def film_def)
  have 3: "findIndex (is_duplicate (newMovie_of (found (NumId 42)) Watched ?env))
             (movies ?st) = 1"
    by (simp add: is_duplicate_def newMovie_of_def found_def film_def app_state_def)
  have 4: "updaterRan ?env \<and> openDB_error ?st = None" by (simp add: drawn_def app_state_def)
  have 5: "movies (snd (handleAddMovie (found (NumId 42)) Watched ?env ?st))
    = [film ''b'' 43 Watched None 50, film ''a'' 42 Watched None 100]"
    by (simp add: movies_handleAddMovie Let_def 3) (simp add: app_state_def film_def)
  show ?thesis
    using dedup_changes_status[OF 1 2] 3 4 5
    by (simp add: Let_def app_state_def film_def put_def)
qed

text \<open>
  The claim as stated fails: the call returns no record, and when the updater has not run
  by the time \<^verbatim>\<open>movieToSave\<close> is read, nothing is written, so the stored record keeps the
  old status while the collection has the new one.
\<close>

theorem dedup_write_skipped:
  "fst (handleAddMovie (found (NumId 42)) Watched (drawn_late ''n'' 900)
      (app_state [film ''a'' 42 Watchlist None 100])) = Inr () \<and>
   movies (snd (handleAddMovie (found (NumId 42)) Watched (drawn_late ''n'' 900)
      (app_state [film ''a'' 42 Watchlist None 100])))
    = [film ''a'' 42 Watched None 100] \<and>
   store (snd (handleAddMovie (found (NumId 42)) Watched (drawn_late ''n'' 900)
      (app_state [film ''a'' 42 Watchlist None 100])))
    = [(''a'', film ''a'' 42 Watchlist None 100)]"
  by (simp add: handleAddMovie_def addMovie_updater_def Let_def is_duplicate_def
        newMovie_of_def found_def film_def app_state_def drawn_late_def)

text \<open>
  C2. The claim asks that \<open>plannedDate\<close> be absent after every status change to a status
  other than the watchlist. The quick toggle and the details form clear it; the
  duplicate branch of \<^verbatim>\<open>handleAddMovie\<close> does not: a record on the watchlist with a planned
  date, added again from the search with the target status watched, becomes watched and
  keeps its planned date.
\<close>

theorem dedup_keeps_plannedDate:
  "movies (snd (handleAddMovie (found (NumId 42)) Watched (drawn ''n'' 900)
      (app_state [film ''a'' 42 Watchlist (Some ''2024-01-05'') 100])))
    = [film ''a'' 42 Watched (Some ''2024-01-05'') 100]"
  by (simp add: movies_handleAddMovie Let_def is_duplicate_def newMovie_of_def found_def
        film_def app_state_def)

section \<open>Manual entry\<close>

lemma single_ref_newMovie: "single_ref (newMovie_of result ts env)"
  by (simp add: single_ref_def newMovie_of_def split: result_id.splits)

lemma single_ref_status: "single_ref (m\<lparr>status := s\<rparr>) = single_ref m"
  by (simp add: single_ref_def)

text \<open>
  Every record that \<^verbatim>\<open>handleAddMovie\<close> creates holds exactly one kind of reference, and a
  collection in which no record holds both keeps that property under every call.
\<close>

lemma newMovie_one_ref:
  "(tmdbId (newMovie_of result ts env) = None) \<noteq> (openLibraryId (newMovie_of result ts env) = None)"
  by (simp add: newMovie_of_def split: result_id.splits)

lemma handleAddMovie_single_ref:
  assumes "\<forall>m\<in>set (movies st). single_ref m"
  shows "\<forall>m\<in>set (movies (snd (handleAddMovie result ts env st))). single_ref m"
proof (cases "findIndex (is_duplicate (newMovie_of result ts env)) (movies st) \<ge> 0")
  case True
  from findIndex_found[OF True] assms
  have "single_ref ((movies st !
           nat (findIndex (is_duplicate (newMovie_of result ts env)) (movies st)))\<lparr>status := ts\<rparr>)"
    by (simp add: single_ref_status)
  with assms True show ?thesis
    using set_update_subset_insert[of "movies st"]
    by (auto simp add: movies_handleAddMovie Let_def)
next
  case False
  with assms show ?thesis
    by (simp add: movies_handleAddMovie Let_def single_ref_newMovie)
qed

text \<open>
  C4. The claim asks that a record entered by hand carry no external reference.
  \<^verbatim>\<open>handleSubmit\<close> gives the search result it builds the id \<^verbatim>\<open>Date.now()\<close>, and
  \<^verbatim>\<open>handleAddMovie\<close> copies every numeric id into \<open>tmdbId\<close>, the property that \<^verbatim>\<open>types.ts\<close>
  documents as the catalogue identifier of films and series: a film entered by hand at the
  time 1700000000000 enters the collection and the store with that number as its
  \<open>tmdbId\<close>.
\<close>

theorem manual_entry_carries_tmdbId:
  "movies (snd (manualAdd form 1700000000000 (drawn ''k1'' 1700000000001) (app_state [])))
     = [\<lparr>movie_id = ''k1'', tmdbId = Some 1700000000000, openLibraryId = None,
         title = ''Home video'', year = ''2024'', genre = [''Family'', ''Holiday''],
         description = ''No description provided.'', director = ''Unknown'',
         status = Watched, rating = 0, userReview = None, posterPath = Some Null,
         posterSeed = 0, addedAt = 1700000000001, mediaType = MovieT, tmdbRating = Some 0,
         pageCount = None, plannedDate = None, watchProviders = None, seasons = None\<rparr>] \<and>
   map fst (store (snd (manualAdd form 1700000000000 (drawn ''k1'' 1700000000001)
     (app_state [])))) = [''k1''] \<and>
   tmdbId (hd (map snd (store (snd (manualAdd form 1700000000000 (drawn ''k1'' 1700000000001)
     (app_state [])))))) = Some 1700000000000"
  by (simp add: manualAdd_def handleAddMovie_def addMovie_updater_def saveMovie_def
      db_saveMovie_def initDB_def put_def Let_def newMovie_of_def handleSubmit_def
      app_state_def drawn_def form_def trim_def is_space_def)

section \<open>Next-up pick\<close>

lemma compare_no_later: "compare_upNext a b \<le> 0 \<longleftrightarrow> no_later a b"
  by (auto simp: compare_upNext_def no_later_def localeCompare_def split: option.splits)

lemma no_later_total: "no_later a b \<or> no_later b a"
  by (auto simp: no_later_def split: option.splits)

lemma no_later_trans: "no_later a b \<Longrightarrow> no_later b c \<Longrightarrow> no_later a c"
  by (auto simp: no_later_def split: option.splits)

lemma set_insert_by: "set (insert_by cmp x ys) = insert x (set ys)"
  by (induction ys) auto

lemma set_sort_by: "set (sort_by cmp xs) = set xs"
  by (induction xs) (auto simp: sort_by_def set_insert_by)

lemma sorted_insert_by:
  assumes tot: "\<And>a b. cmp a b \<le> 0 \<or> cmp b a \<le> 0"
    and tr: "\<And>a b c. cmp a b \<le> 0 \<Longrightarrow> cmp b c \<le> 0 \<Longrightarrow> cmp a c \<le> 0"
  shows "sorted_wrt (\<lambda>a b. cmp a b \<le> 0) ys \<Longrightarrow>
         sorted_wrt (\<lambda>a b. cmp a b \<le> 0) (insert_by cmp x ys)"
proof (induction ys)
  case Nil
  then show ?case by simp
next
  case (Cons y ys)
  show ?case
  proof (cases "cmp x y \<le> 0")
    case True
    with Cons.prems tr show ?thesis by auto
  next
    case False
    with tot have "cmp y x \<le> 0" by blast
    with False Cons show ?thesis by (auto simp: set_insert_by)
  qed
qed

lemma sorted_sort_by:
  assumes tot: "\<And>a b. cmp a b \<le> 0 \<or> cmp b a \<le> 0"
    and tr: "\<And>a b c. cmp a b \<le> 0 \<Longrightarrow> cmp b c \<le> 0 \<Longrightarrow> cmp a c \<le> 0"
  shows "sorted_wrt (\<lambda>a b. cmp a b \<le> 0) (sort_by cmp xs)"
proof (induction xs)
  case Nil
  then show ?case by (simp add: sort_by_def)
next
  case (Cons x xs)
  have "sort_by cmp (x # xs) = insert_by cmp x (sort_by cmp xs)" by (simp add: sort_by_def)
  with Cons sorted_insert_by[of cmp, OF tot tr] show ?case by simp
qed

lemma sorted_upNext: "sorted_wrt no_later (sort_by compare_upNext xs)"
proof -
  have "sorted_wrt (\<lambda>a b. compare_upNext a b \<le> 0) (sort_by compare_upNext xs)"
  proof (rule sorted_sort_by)
    fix a b show "compare_upNext a b \<le> 0 \<or> compare_upNext b a \<le> 0"
      using no_later_total[of a b] by (simp add: compare_no_later)
  next
    fix a b c assume "compare_upNext a b \<le> 0" "compare_upNext b c \<le> 0"
    then show "compare_upNext a c \<le> 0"
      using no_later_trans[of a b c] by (simp add: compare_no_later)
  qed
  then show ?thesis by (simp add: compare_no_later)
qed

lemma getTop_next_up: "is_next_up ms types (getTop ms types)"
proof -
  let ?items = "filter (\<lambda>m. status m = Watchlist \<and> mediaType m \<in> set types) ms"
  have items: "filter (\<lambda>m. mediaType m \<in> set types) (filter (\<lambda>m. status m = Watchlist) ms)
                 = ?items"
    by (simp add: conj_commute)
  show ?thesis
  proof (cases "sort_by compare_upNext ?items")
    case Nil
    then have "set ?items = {}" using set_sort_by[of compare_upNext ?items] by simp
    then have "?items = []" by (simp only: set_empty)
    with Nil show ?thesis by (simp add: is_next_up_def getTop_def Let_def items)
  next
    case (Cons p ps)
    have s: "set (p # ps) = set ?items" using set_sort_by[of compare_upNext ?items] Cons by simp
    have "sorted_wrt no_later (p # ps)" using sorted_upNext[of ?items] Cons by simp
    then have "\<forall>q\<in>set ps. no_later p q" by simp
    moreover have "no_later p p" using no_later_total[of p p] by simp
    ultimately have "\<forall>q\<in>set (p # ps). no_later p q" by simp
    with s have "p \<in> set ?items \<and> (\<forall>q\<in>set ?items. no_later p q)" by auto
    with Cons show ?thesis by (simp add: is_next_up_def getTop_def Let_def items)
  qed
qed

text \<open>
  C7. For every collection and every group of media types, the pick \<^verbatim>\<open>getTop\<close> returns is
  absent when the group has no record on the watchlist, and else is a record of the group
  on the watchlist that is no later than every such record in the order: two planned dates
  by date, planned before unplanned, two unplanned by \<open>addedAt\<close>. In the library and
  watchlist views \<^verbatim>\<open>upNext\<close> is this pick for the group of films and series and for the
  group of books.
\<close>

theorem next_up_minimum:
  "is_next_up ms types (getTop ms types) \<and>
   ((view = LIBRARY \<or> view = WATCHLIST) \<longrightarrow>
      upNext view ms = Some \<lparr>visual = getTop ms [MovieT, TvT], book = getTop ms [BookT]\<rparr>)"
  by (auto simp: getTop_next_up upNext_def)

theorem next_up_minimum_witness:
  "upNext LIBRARY [planned_A, planned_B, unplanned_C, unplanned_D]
     = Some \<lparr>visual = Some planned_B, book = None\<rparr> \<and>
   getTop [planned_A, unplanned_C, unplanned_D] [MovieT, TvT] = Some planned_A \<and>
   getTop [unplanned_C, unplanned_D] [MovieT, TvT] = Some unplanned_D \<and>
   is_next_up [planned_A, planned_B, unplanned_C, unplanned_D] [MovieT, TvT] (Some planned_B)"
proof -
  have 1: "getTop [planned_A, planned_B, unplanned_C, unplanned_D] [MovieT, TvT] = Some planned_B"
    by (simp add: getTop_def sort_by_def compare_upNext_def date_of_def localeCompare_def
        planned_A_def planned_B_def unplanned_C_def unplanned_D_def film_def)
  have 2: "getTop [planned_A, unplanned_C, unplanned_D] [MovieT, TvT] = Some planned_A"
    by (simp add: getTop_def sort_by_def compare_upNext_def date_of_def localeCompare_def
        planned_A_def unplanned_C_def unplanned_D_def film_def)
  have 3: "getTop [unplanned_C, unplanned_D] [MovieT, TvT] = Some unplanned_D"
    by (simp add: getTop_def sort_by_def compare_upNext_def date_of_def localeCompare_def
        unplanned_C_def unplanned_D_def film_def)
  have 4: "getTop [planned_A, planned_B, unplanned_C, unplanned_D] [BookT] = None"
    by (simp add: getTop_def sort_by_def planned_A_def planned_B_def unplanned_C_def
        unplanned_D_def film_def)
  from next_up_minimum[of "[planned_A, planned_B, unplanned_C, unplanned_D]" "[MovieT, TvT]" LIBRARY]
    1 2 3 4
  show ?thesis by simp
qed

section \<open>Migration, initialisation, export and import\<close>

lemma update_fresh: "k \<notin> fst ` set al \<Longrightarrow> AList.update k v al = al @ [(k, v)]"
  by (induction al) auto

lemma fold_put_fresh:
  "distinct (map (\<lambda>x. movie_id (f x)) xs) \<Longrightarrow>
   (\<lambda>x. movie_id (f x)) ` set xs \<inter> fst ` set al = {} \<Longrightarrow>
   fold (\<lambda>x. put (f x)) xs al = al @ map (\<lambda>x. (movie_id (f x), f x)) xs"
proof (induction xs arbitrary: al)
  case Nil
  then show ?case by simp
next
  case (Cons x xs)
  from Cons.prems have fresh: "movie_id (f x) \<notin> fst ` set al" by auto
  then have step: "put (f x) al = al @ [(movie_id (f x), f x)]"
    by (simp add: put_def update_fresh)
  have "fold (\<lambda>x. put (f x)) xs (al @ [(movie_id (f x), f x)])
          = (al @ [(movie_id (f x), f x)]) @ map (\<lambda>x. (movie_id (f x), f x)) xs"
    by (rule Cons.IH) (use Cons.prems in auto)
  with step show ?case by simp
qed

lemma map_of_fold_put_other:
  "k \<notin> (\<lambda>x. movie_id (f x)) ` set xs \<Longrightarrow>
   map_of (fold (\<lambda>x. put (f x)) xs al) k = map_of al k"
  by (induction xs arbitrary: al) (auto simp: put_def update_conv')

lemma map_of_fold_put_member:
  "distinct (map (\<lambda>x. movie_id (f x)) xs) \<Longrightarrow> x \<in> set xs \<Longrightarrow>
   map_of (fold (\<lambda>x. put (f x)) xs al) (movie_id (f x)) = Some (f x)"
proof (induction xs arbitrary: al)
  case Nil
  then show ?case by simp
next
  case (Cons a xs)
  show ?case
  proof (cases "x = a")
    case True
    with Cons.prems have "movie_id (f a) \<notin> (\<lambda>x. movie_id (f x)) ` set xs" by auto
    then have "map_of (fold (\<lambda>x. put (f x)) xs (put (f a) al)) (movie_id (f a))
                 = map_of (put (f a) al) (movie_id (f a))"
      by (rule map_of_fold_put_other)
    also have "\<dots> = Some (f a)" by (simp add: put_def update_conv')
    finally show ?thesis using True by simp
  next
    case False
    with Cons show ?thesis by simp
  qed
qed

lemma movie_id_normalized: "movie_id (normalized movie) = movie_id movie"
  by (simp add: normalized_def)

lemma migrate_success:
  assumes "openDB_error st = None"
    and "localStorage st LOCAL_STORAGE_KEY = Some payload" and "payload \<noteq> []"
    and "JSON_parse payload = Inr (JArray items)" and "items \<noteq> []"
  shows "migrateFromLocalStorage JSON_parse st =
           (Inr (), st\<lparr>store := fold (\<lambda>movie. put (normalized movie)) items (store st),
                       localStorage := (localStorage st)(LOCAL_STORAGE_KEY := None),
                       console := console st @ [MigratedLog (length items)]\<rparr>)"
  using assms by (simp add: migrateFromLocalStorage_def initDB_def)

lemma migrate_absent:
  "localStorage st LOCAL_STORAGE_KEY = None \<Longrightarrow>
   migrateFromLocalStorage JSON_parse st = (Inr (), st)"
  by (simp add: migrateFromLocalStorage_def)

lemma initStorage_open:
  assumes "openDB_error st = None" and "\<forall>s. persistStorage s = (Inr (), s)"
  shows "initStorage JSON_parse persistStorage st = migrateFromLocalStorage JSON_parse st"
  using assms by (simp add: initStorage_def initDB_def)

text \<open>
  C5. Let the database open, \<^verbatim>\<open>persistStorage\<close> succeed without touching the state, and
  the legacy key hold a non-empty payload that parses to a non-empty array of items with
  pairwise different ids. Then \<^verbatim>\<open>initStorage\<close> succeeds; afterwards the store holds, under
  the id of every legacy item, a record with every field of that item, and with
  \<open>mediaType\<close> the item's, or the film type where the item has none; the records under
  other ids are untouched, and a store that was empty holds exactly one record per item,
  in the order of the payload; the legacy key is gone; and a second \<^verbatim>\<open>initStorage\<close>
  succeeds and leaves the state as it is.
\<close>

theorem migration_once:
  assumes "openDB_error st = None"
    and "\<forall>s. persistStorage s = (Inr (), s)"
    and "localStorage st LOCAL_STORAGE_KEY = Some payload" and "payload \<noteq> []"
    and "JSON_parse payload = Inr (JArray items)" and "items \<noteq> []"
    and "distinct (map movie_id items)"
  shows "let st' = snd (initStorage JSON_parse persistStorage st)
         in fst (initStorage JSON_parse persistStorage st) = Inr () \<and>
            (\<forall>movie\<in>set items.
               map_of (store st') (movie_id movie) =
                 Some \<lparr>movie_id = movie_id movie,
                       tmdbId = tmdbId movie,
                       openLibraryId = openLibraryId movie,
                       title = title movie,
                       year = year movie,
                       genre = genre movie,
                       description = description movie,
                       director = director movie,
                       status = status movie,
                       rating = rating movie,
                       userReview = userReview movie,
                       posterPath = posterPath movie,
                       posterSeed = posterSeed movie,
                       addedAt = addedAt movie,
                       mediaType = (case mediaType movie of None \<Rightarrow> MovieT | Some t \<Rightarrow> t),
                       tmdbRating = tmdbRating movie,
                       pageCount = pageCount movie,
                       plannedDate = plannedDate movie,
                       watchProviders = watchProviders movie,
                       seasons = seasons movie\<rparr>) \<and>
            (\<forall>k. k \<notin> movie_id ` set items \<longrightarrow> map_of (store st') k = map_of (store st) k) \<and>
            (store st = [] \<longrightarrow> map fst (store st') = map movie_id items) \<and>
            localStorage st' LOCAL_STORAGE_KEY = None \<and>
            initStorage JSON_parse persistStorage st' = (Inr (), st')"
proof -
  let ?st' = "st\<lparr>store := fold (\<lambda>movie. put (normalized movie)) items (store st),
                 localStorage := (localStorage st)(LOCAL_STORAGE_KEY := None),
                 console := console st @ [MigratedLog (length items)]\<rparr>"
  have run: "initStorage JSON_parse persistStorage st = (Inr (), ?st')"
    using assms by (simp add: initStorage_open migrate_success)
  have d: "distinct (map (\<lambda>x. movie_id (normalized x)) items)"
    using assms(7) by (simp add: movie_id_normalized)
  have a: "\<forall>movie\<in>set items. map_of (store ?st') (movie_id movie) = Some (normalized movie)"
    using map_of_fold_put_member[of normalized items _ "store st", OF d]
    by (simp add: movie_id_normalized)
  have b: "\<forall>k. k \<notin> movie_id ` set items \<longrightarrow> map_of (store ?st') k = map_of (store st) k"
    using map_of_fold_put_other[of _ normalized items "store st"]
    by (simp add: movie_id_normalized image_iff)
  have c: "store st = [] \<longrightarrow> map fst (store ?st') = map movie_id items"
    using fold_put_fresh[of normalized items "[]", OF d]
    by (simp add: comp_def movie_id_normalized)
  have e: "initStorage JSON_parse persistStorage ?st' = (Inr (), ?st')"
    using assms(1,2) by (simp add: initStorage_open migrate_absent)
  from a have a': "\<forall>movie\<in>set items.
               map_of (store ?st') (movie_id movie) =
                 Some \<lparr>movie_id = movie_id movie,
                       tmdbId = tmdbId movie,
                       openLibraryId = openLibraryId movie,
                       title = title movie,
                       year = year movie,
                       genre = genre movie,
                       description = description movie,
                       director = director movie,
                       status = status movie,
                       rating = rating movie,
                       userReview = userReview movie,
                       posterPath = posterPath movie,
                       posterSeed = posterSeed movie,
                       addedAt = addedAt movie,
                       mediaType = (case mediaType movie of None \<Rightarrow> MovieT | Some t \<Rightarrow> t),
                       tmdbRating = tmdbRating movie,
                       pageCount = pageCount movie,
                       plannedDate = plannedDate movie,
                       watchProviders = watchProviders movie,
                       seasons = seasons movie\<rparr>"
    by (simp add: normalized_def)
  have lk: "localStorage ?st' LOCAL_STORAGE_KEY = None" by simp
  show ?thesis
    unfolding Let_def run snd_conv fst_conv
    using a' b c lk e by blast
qed

theorem migration_once_witness:
  "fst (initStorage sample_parse persist_ok (legacy_state legacy_payload)) = Inr () \<and>
   store (snd (initStorage sample_parse persist_ok (legacy_state legacy_payload)))
     = [(''a'', item ''a'' MovieT), (''b'', item ''b'' TvT)] \<and>
   localStorage (snd (initStorage sample_parse persist_ok (legacy_state legacy_payload)))
     LOCAL_STORAGE_KEY = None \<and>
   initStorage sample_parse persist_ok
       (snd (initStorage sample_parse persist_ok (legacy_state legacy_payload)))
     = (Inr (), snd (initStorage sample_parse persist_ok (legacy_state legacy_payload))) \<and>
   movies (init sample_parse persist_ok (legacy_state legacy_payload))
     = [item ''a'' MovieT, item ''b'' TvT]"
proof -
  let ?st = "legacy_state legacy_payload"
  let ?items = "[item ''a'' None, item ''b'' (Some TvT)]"
  have 1: "openDB_error ?st = None" by (simp add: legacy_state_def)
  have 2: "\<forall>s. persist_ok s = (Inr (), s)" by (simp add: persist_ok_def)
  have 3: "localStorage ?st LOCAL_STORAGE_KEY = Some legacy_payload"
    by (simp add: legacy_state_def)
  have 4: "legacy_payload \<noteq> []" by (simp add: legacy_payload_def)
  have 5: "sample_parse legacy_payload = Inr (JArray ?items)" by (simp add: sample_parse_def)
  have 6: "?items \<noteq> []" by simp
  have 7: "distinct (map movie_id ?items)" by (simp add: item_def)
  have 8: "store (snd (initStorage sample_parse persist_ok ?st))
             = [(''a'', item ''a'' MovieT), (''b'', item ''b'' TvT)]"
    using 1 3 4 5
    by (simp add: initStorage_def initDB_def persist_ok_def migrateFromLocalStorage_def
        normalized_def item_def put_def legacy_state_def)
  have 9: "movies (init sample_parse persist_ok ?st) = [item ''a'' MovieT, item ''b'' TvT]"
    using 1 3 4 5
    by (simp add: init_def getLibrary_def getAllMovies_def initStorage_def initDB_def
        persist_ok_def migrateFromLocalStorage_def normalized_def item_def put_def
        legacy_state_def)
  from migration_once[where JSON_parse = sample_parse and persistStorage = persist_ok
      and st = ?st and payload = legacy_payload and items = ?items, OF 1 2 3 4 5 6 7] 8 9
  show ?thesis
    by (simp add: Let_def)
qed

text \<open>
  C6. When the payload under the legacy key fails to parse, or parses to a value that is
  not an array, \<^verbatim>\<open>migrateFromLocalStorage\<close> returns normally and leaves the store, the
  local storage and the collection as they were; and when the database opens and
  \<^verbatim>\<open>persistStorage\<close> succeeds, so does \<^verbatim>\<open>initStorage\<close>, with the store unchanged and the
  legacy key still holding the payload.
\<close>

theorem migration_malformed:
  assumes "localStorage st LOCAL_STORAGE_KEY = Some payload"
    and "JSON_parse payload = Inl e \<or> JSON_parse payload = Inr JOther"
    and "openDB_error st = None"
    and "\<forall>s. persistStorage s = (Inr (), s)"
  shows "fst (migrateFromLocalStorage JSON_parse st) = Inr () \<and>
         store (snd (migrateFromLocalStorage JSON_parse st)) = store st \<and>
         localStorage (snd (migrateFromLocalStorage JSON_parse st)) = localStorage st \<and>
         movies (snd (migrateFromLocalStorage JSON_parse st)) = movies st \<and>
         fst (initStorage JSON_parse persistStorage st) = Inr () \<and>
         store (snd (initStorage JSON_parse persistStorage st)) = store st \<and>
         localStorage (snd (initStorage JSON_parse persistStorage st)) LOCAL_STORAGE_KEY
           = Some payload"
proof -
  have m: "fst (migrateFromLocalStorage JSON_parse st) = Inr () \<and>
         store (snd (migrateFromLocalStorage JSON_parse st)) = store st \<and>
         localStorage (snd (migrateFromLocalStorage JSON_parse st)) = localStorage st \<and>
         movies (snd (migrateFromLocalStorage JSON_parse st)) = movies st"
    using assms(1,2) by (auto simp: migrateFromLocalStorage_def)
  moreover have "initStorage JSON_parse persistStorage st = migrateFromLocalStorage JSON_parse st"
    using assms(3,4) by (rule initStorage_open)
  ultimately show ?thesis using assms(1) by simp
qed

theorem migration_malformed_witness:
  "fst (initStorage sample_parse persist_ok (legacy_state broken_payload)) = Inr () \<and>
   store (snd (initStorage sample_parse persist_ok (legacy_state broken_payload))) = [] \<and>
   localStorage (snd (initStorage sample_parse persist_ok (legacy_state broken_payload)))
     LOCAL_STORAGE_KEY = Some broken_payload \<and>
   localStorage (snd (migrateFromLocalStorage sample_parse (legacy_state object_payload)))
     LOCAL_STORAGE_KEY = Some object_payload"
proof -
  let ?st = "legacy_state broken_payload"
  have 1: "localStorage ?st LOCAL_STORAGE_KEY = Some broken_payload"
    by (simp add: legacy_state_def)
  have 2: "sample_parse broken_payload = Inl (SyntaxError ''Unexpected end of JSON input'')
           \<or> sample_parse broken_payload = Inr JOther"
    by (simp add: sample_parse_def broken_payload_def legacy_payload_def object_payload_def)
  have 3: "openDB_error ?st = None" by (simp add: legacy_state_def)
  have 4: "\<forall>s. persist_ok s = (Inr (), s)" by (simp add: persist_ok_def)
  have 5: "store ?st = []" by (simp add: legacy_state_def)
  have 6: "localStorage (snd (migrateFromLocalStorage sample_parse (legacy_state object_payload)))
     LOCAL_STORAGE_KEY = Some object_payload"
    by (simp add: migrateFromLocalStorage_def legacy_state_def sample_parse_def
        object_payload_def legacy_payload_def)
  from migration_malformed[where JSON_parse = sample_parse and persistStorage = persist_ok
      and st = ?st and payload = broken_payload, OF 1 2 3 4] 5 6
  show ?thesis by simp
qed

text \<open>
  C8. When the database does not open, \<^verbatim>\<open>initStorage\<close> rejects with the error of
  \<^verbatim>\<open>openDB\<close> and leaves the state as it was, whatever \<^verbatim>\<open>persistStorage\<close> and the migration
  would do; the error reaches \<^verbatim>\<open>init\<close> of \<^verbatim>\<open>App\<close>, which logs it and clears the loading flag
  without reading the library.
\<close>

theorem init_failure_propagates:
  assumes "openDB_error st = Some e"
  shows "initStorage JSON_parse persistStorage st = (Inl e, st) \<and>
         init JSON_parse persistStorage st =
           st\<lparr>console := console st @ [ConsoleError ''Failed to load library'' e],
              isLoading := False\<rparr>"
  using assms by (simp add: init_def initStorage_def initDB_def)

theorem init_failure_propagates_witness:
  "initStorage sample_parse persist_ok closed_state
     = (Inl (DOMException ''storage unavailable''), closed_state) \<and>
   movies (init sample_parse persist_ok closed_state) = [] \<and>
   isLoading (init sample_parse persist_ok closed_state) = False \<and>
   console (init sample_parse persist_ok closed_state)
     = [ConsoleError ''Failed to load library'' (DOMException ''storage unavailable'')]"
proof -
  have 1: "openDB_error closed_state = Some (DOMException ''storage unavailable'')"
    by (simp add: closed_state_def)
  from init_failure_propagates[OF 1, of sample_parse persist_ok] show ?thesis
    by (simp add: closed_state_def)
qed

lemma bulkSaveMovies_open:
  "openDB_error st = None \<Longrightarrow>
   bulkSaveMovies ms st = (Inr (), st\<lparr>store := fold put ms []\<rparr>)"
  by (simp add: bulkSaveMovies_def initDB_def)

lemma fold_put_distinct:
  "distinct (map movie_id ms) \<Longrightarrow> fold put ms [] = map (\<lambda>m. (movie_id m, m)) ms"
  using fold_put_fresh[of "\<lambda>m. m" ms "[]"] by simp

text \<open>
  C9. Let \<^verbatim>\<open>JSON.parse\<close> give back, for the text \<^verbatim>\<open>JSON.stringify\<close> makes of the collection,
  the array of its records; let the database open and the ids of the collection be
  pairwise different. Then importing the exported text and confirming the replacement
  leaves the collection in memory as it was, the store holding exactly the records of the
  collection, and \<^verbatim>\<open>getLibrary\<close> returning them in some order.
\<close>

theorem export_import_roundtrip:
  assumes "JSON_parse (JSON_stringify (movies st)) = Inr (JArray (movies st))"
    and "openDB_error st = None"
    and "distinct (map movie_id (movies st))"
  shows "let st' = handleFileChange JSON_parse
                     (Some (Inr (exportData JSON_stringify (movies st)))) True st
         in importData JSON_parse (Inr (exportData JSON_stringify (movies st)))
              = Inr (movies st) \<and>
            movies st' = movies st \<and>
            map snd (store st') = movies st \<and>
            (\<exists>loaded. fst (getLibrary st') = Inr loaded \<and> mset loaded = mset (movies st))"
proof -
  let ?file = "Inr (exportData JSON_stringify (movies st))"
  have imp: "importData JSON_parse ?file = Inr (movies st)"
    using assms(1) by (simp add: importData_def exportData_def)
  have st': "handleFileChange JSON_parse (Some ?file) True st
               = st\<lparr>store := map (\<lambda>m. (movie_id m, m)) (movies st)\<rparr>"
    using assms(2,3) imp
    by (simp add: handleFileChange_def overwriteLibrary_def bulkSaveMovies_open
        fold_put_distinct)
  have lib: "fst (getLibrary (st\<lparr>store := map (\<lambda>m. (movie_id m, m)) (movies st)\<rparr>))
               = Inr (map snd (sort_key fst (map (\<lambda>m. (movie_id m, m)) (movies st))))"
    using assms(2) by (simp add: getLibrary_def getAllMovies_def initDB_def)
  have "mset (map snd (sort_key fst (map (\<lambda>m. (movie_id m, m)) (movies st))))
          = mset (movies st)"
    by (simp add: image_mset.compositionality comp_def)
  with imp st' lib show ?thesis by (simp add: Let_def comp_def)
qed

theorem export_import_roundtrip_witness:
  "movies (handleFileChange sample_parse_export
             (Some (Inr (exportData sample_stringify two_films))) True (app_state two_films))
     = two_films \<and>
   map snd (store (handleFileChange sample_parse_export
             (Some (Inr (exportData sample_stringify two_films))) True (app_state two_films)))
     = two_films \<and>
   fst (getLibrary (handleFileChange sample_parse_export
             (Some (Inr (exportData sample_stringify two_films))) True (app_state two_films)))
     = Inr [film ''a'' 42 Watchlist None 100, film ''b'' 43 Watched None 50]"
proof -
  let ?st = "app_state two_films"
  have m: "movies ?st = two_films" by (simp add: app_state_def)
  have 1: "sample_parse_export (sample_stringify (movies ?st)) = Inr (JArray (movies ?st))"
    by (simp add: m sample_parse_export_def sample_stringify_def)
  have 2: "openDB_error ?st = None" by (simp add: app_state_def)
  have 3: "distinct (map movie_id (movies ?st))"
    by (simp add: app_state_def two_films_def film_def)
  have 4: "handleFileChange sample_parse_export
             (Some (Inr (exportData sample_stringify two_films))) True ?st
           = ?st"
    by (simp add: handleFileChange_def importData_def exportData_def sample_parse_export_def
        sample_stringify_def overwriteLibrary_def bulkSaveMovies_def initDB_def app_state_def
        two_films_def film_def put_def)
  have 5: "fst (getLibrary ?st) = Inr [film ''a'' 42 Watchlist None 100, film ''b'' 43 Watched None 50]"
    by (simp add: getLibrary_def getAllMovies_def initDB_def app_state_def two_films_def
        film_def)
  from export_import_roundtrip[where JSON_parse = sample_parse_export
      and JSON_stringify = sample_stringify and st = ?st, OF 1 2 3] m 4 5
  show ?thesis by (simp add: Let_def)
qed

end
